theory Spec2Isabelle
  imports Main "HOL-Library.Word"
begin

section \<open>The interpreter boundary\<close>

text \<open>
  An interpreter instance (\<^verbatim>\<open>*lua.LState\<close>) is a pointer and is only ever compared by
  identity, so a handle is a number.  The values that cross the boundary are the arguments
  of \<^verbatim>\<open>tcpConnect\<close> and the values it pushes back.  \<^verbatim>\<open>LNumber\<close> is a float in the
  interpreter; the model keeps the integral ones, on which \<^verbatim>\<open>int(port)\<close> is the identity.
\<close>

type_synonym lstate = nat

datatype lvalue = LNil | LFalse | LTrue | LNumber int | LString string

text \<open>
  How a call ends.  A Go function either returns, or unwinds with a panic; a Lua error
  raised through the interpreter is a panic too, but one the interpreter turns into an
  error of the calling script, so it is kept apart.  A call that parks its thread on a
  condition variable or on a channel and is never released does not end at all.
\<close>

datatype go_panic = NilMapAssignment | TypeAssertion

datatype 'a result = Returned 'a | LuaRaised string | GoPanic go_panic | Blocked

section \<open>The session state\<close>

subsection \<open>Protocol messages\<close>

text \<open>
  The package \<^verbatim>\<open>proto\<close> is not among the source files.  Its message types are known by
  the fields the facade reads and writes; the command ids are constants whose values the
  facade never looks at, so they are a parameter.
\<close>

record msgids =
  MsgIdInitReq :: int
  MsgIdReadyReq :: int
  MsgIdAddBreakPointReq :: int
  MsgIdRemoveBreakPointReq :: int
  MsgIdActionReq :: int
  MsgIdEvalReq :: int
  MsgIdBreakNotify :: int
  MsgIdEvalRsp :: int

record InitReq =
  EmmyHelper :: string
  Ext :: "string list"

record proto_BreakPoint =
  File :: string
  Condition :: string
  Line :: int

record AddBreakPointReq =
  Clear :: bool
  BreakPoints :: "proto_BreakPoint list"

record RemoveBreakPointReq =
  BreakPoints :: "proto_BreakPoint list"

record ActionReq =
  Action :: int

record EvalReq =
  Expr :: string
  Seq :: int
  StackLevel :: int
  Depth :: int
  CacheId :: int

text \<open>
  The payload a received message carries (\<^verbatim>\<open>req interface{}\<close>): one of the request
  types, or something else.
\<close>

datatype payload =
    PInitReq InitReq
  | PReadyReq
  | PAddBreakPointReq AddBreakPointReq
  | PRemoveBreakPointReq RemoveBreakPointReq
  | PActionReq ActionReq
  | PEvalReq EvalReq
  | POther

text \<open>
  A stack frame, as the engine captures it (over the engine's variables) and as the
  protocol carries it (over the protocol's variables); the two types have the same fields.
\<close>

record 'v Stack =
  Level :: int
  File :: string
  FunctionName :: string
  Line :: int
  LocalVariables :: "'v list"
  UpvalueVariables :: "'v list"

record 'v BreakNotify =
  Cmd :: int
  Stacks :: "'v Stack list"

subsection \<open>Breakpoints and the engine\<close>

record BreakPoint =
  File :: string
  Condition :: string
  Line :: int

type_synonym bp_key = "string \<times> int"

text \<open>
  Of an \<^verbatim>\<open>EvalContext\<close> the fields the dispatcher fills are kept; \<^verbatim>\<open>Error\<close> and
  \<^verbatim>\<open>Result\<close> are the engine's to set and are empty at dispatch.
\<close>

record EvalContext =
  Expr :: string
  Seq :: int
  StackLevel :: int
  Depth :: int
  CacheId :: int
  Success :: bool

text \<open>
  The Debugger engine (\<^verbatim>\<open>newDebugger\<close>, \<^verbatim>\<open>Start\<close>, \<^verbatim>\<open>Attach\<close>, \<^verbatim>\<open>AddBreakPoint\<close>,
  \<^verbatim>\<open>RemoveBreakPoint\<close>, \<^verbatim>\<open>RemoveAllBreakpoints\<close>, \<^verbatim>\<open>DoAction\<close>, \<^verbatim>\<open>Eval\<close>,
  \<^verbatim>\<open>GetStacks\<close>) is not among the source files; the facade only calls it.
\<close>

text \<open>
  Modelled from the spec: the engine's state.  The registry is a mapping from the key
  (File, Line) to the breakpoint, keys unique.  The engine retains the helper code, is
  marked started, and has hooks installed on the instances attached to it.  What an
  action or an evaluation does to a paused thread is outside the facade: the calls the
  engine received are kept, oldest first.
\<close>

record Debugger =
  breakpoints :: "bp_key \<rightharpoonup> BreakPoint"
  started :: bool
  helper :: string
  attached :: "lstate set"
  ExtNames :: "string list"
  actions :: "int list"
  evals :: "EvalContext list"

text \<open>Modelled from the spec: \<^verbatim>\<open>newDebugger\<close>, an engine with an empty registry, not started.\<close>

definition newDebugger :: Debugger where
  "newDebugger = \<lparr>breakpoints = Map.empty, started = False, helper = [], attached = {},
     ExtNames = [], actions = [], evals = []\<rparr>"

text \<open>Modelled from the spec: \<^verbatim>\<open>Start\<close> retains the helper code and marks the engine started.\<close>

definition Start :: "string \<Rightarrow> Debugger \<Rightarrow> Debugger" where
  "Start code d = d\<lparr>started := True, helper := code\<rparr>"

text \<open>Modelled from the spec: \<^verbatim>\<open>Attach\<close> installs the hooks on the given instance.\<close>

definition Attach :: "lstate \<Rightarrow> Debugger \<Rightarrow> Debugger" where
  "Attach L d = d\<lparr>attached := insert L (attached d)\<rparr>"

text \<open>
  Modelled from the spec: \<^verbatim>\<open>AddBreakPoint\<close> inserts under the key (File, Line) and
  replaces what was there.
\<close>

definition AddBreakPoint :: "BreakPoint \<Rightarrow> Debugger \<Rightarrow> Debugger" where
  "AddBreakPoint bp d =
     d\<lparr>breakpoints := (breakpoints d)((BreakPoint.File bp, BreakPoint.Line bp) \<mapsto> bp)\<rparr>"

text \<open>Modelled from the spec: \<^verbatim>\<open>RemoveBreakPoint\<close> removes by key.\<close>

definition RemoveBreakPoint :: "string \<Rightarrow> int \<Rightarrow> Debugger \<Rightarrow> Debugger" where
  "RemoveBreakPoint file line d = d\<lparr>breakpoints := (breakpoints d)((file, line) := None)\<rparr>"

text \<open>Modelled from the spec: \<^verbatim>\<open>RemoveAllBreakpoints\<close> clears the registry.\<close>

definition RemoveAllBreakpoints :: "Debugger \<Rightarrow> Debugger" where
  "RemoveAllBreakpoints d = d\<lparr>breakpoints := Map.empty\<rparr>"

text \<open>Modelled from the spec: \<^verbatim>\<open>DoAction\<close>, kept as the call the engine received.\<close>

definition DoAction :: "int \<Rightarrow> Debugger \<Rightarrow> Debugger" where
  "DoAction a d = d\<lparr>actions := actions d @ [a]\<rparr>"

text \<open>Modelled from the spec: \<^verbatim>\<open>Eval\<close>, kept as the call the engine received.\<close>

definition Eval :: "EvalContext \<Rightarrow> Debugger \<Rightarrow> Debugger" where
  "Eval c d = d\<lparr>evals := evals d @ [c]\<rparr>"

subsection \<open>The facade, the transports and the process\<close>

text \<open>
  Of a \<^verbatim>\<open>Transport\<close> the facade touches one field, the handler it installs; everything
  else is behind \<^verbatim>\<open>Connect\<close>, \<^verbatim>\<open>Send\<close> and \<^verbatim>\<open>Close\<close>, whose calls are recorded in the
  trace and whose results are given by the environment.  Transports are allocated
  (\<^verbatim>\<open>&Transport{}\<close>), so they live in a store and the facade holds an address or nil.
\<close>

datatype handler = NoHandler | FacadeHandleMsg

record Transport =
  Handler :: handler

text \<open>
  The facade's mutex and condition variable have no fields of their own here: locking,
  waiting and broadcasting are events of the trace.  A Go map that was set to nil is
  \<open>None\<close>: reading it finds nothing, writing to it panics.
\<close>

record Facade =
  dbg :: Debugger
  t :: "nat option"
  isWaitingForIDE :: bool
  isIDEReady :: bool
  helperCode :: string
  states :: "lstate set option"

datatype event =
    EvTransportConnect nat string int
  | EvTransportClose nat
  | EvCallError string
  | EvGoWatcher
  | EvLock
  | EvCondWait
  | EvUnlock
  | EvBroadcast
  | EvLog string

text \<open>
  The process: the package-level guard \<^verbatim>\<open>openConn\<close> (an int32 written atomically), the
  facade, the store of transports, and the trace of what was done to the collaborators.
  Nothing in the two files writes a log line; \<open>EvLog\<close> is there so that this can be said.
\<close>

record world =
  openConn :: "32 word"
  fcd :: Facade
  heap :: "Transport list"
  trace :: "event list"

text \<open>
  \<^verbatim>\<open>newFacade\<close>: a new engine, an empty attached set, no transport.  \<^verbatim>\<open>Preload\<close> makes
  the facade of a process; the guard, a package-level variable, starts at zero.
\<close>

definition newFacade :: Facade where
  "newFacade = \<lparr>dbg = newDebugger, t = None, isWaitingForIDE = False, isIDEReady = False,
     helperCode = [], states = Some {}\<rparr>"

definition Preload :: world where
  "Preload = \<lparr>openConn = 0, fcd = newFacade, heap = [], trace = []\<rparr>"

definition emit :: "event \<Rightarrow> world \<Rightarrow> world" where
  "emit e w = w\<lparr>trace := trace w @ [e]\<rparr>"

subsection \<open>What the collaborators answer\<close>

text \<open>
  The environment of a call: the interpreter's argument checks (either the checked value
  or the message of the Lua error they raise), the outcome of opening and of closing a
  transport (\<open>None\<close> is a nil error, \<open>Some m\<close> an error whose \<^verbatim>\<open>Error()\<close> is \<open>m\<close>;
  the outcome may depend on what was done to the collaborators before, the trace), how
  the call of the script's global \<^verbatim>\<open>error\<close> ends (\<open>Some e\<close>: it raises \<open>e\<close>, as the
  function of the standard library does; \<open>None\<close>: it returns, which a script that
  replaced the global can arrange), whether the instance carries a context, and what
  the other goroutines have made of the process by the time a thread parked in
  \<^verbatim>\<open>cond.Wait\<close> is woken (\<open>None\<close>: nobody ever broadcasts).
\<close>

record env =
  CheckString :: "lvalue list \<Rightarrow> nat \<Rightarrow> string + string"
  CheckNumber :: "lvalue list \<Rightarrow> nat \<Rightarrow> string + int"
  TransportConnect :: "event list \<Rightarrow> string \<Rightarrow> int \<Rightarrow> string option"
  TransportClose :: "event list \<Rightarrow> nat \<Rightarrow> string option"
  CallGlobalError :: "string \<Rightarrow> string option"
  HasContext :: "lstate \<Rightarrow> bool"
  Wake :: "world \<Rightarrow> world option"

section \<open>The rendezvous\<close>

text \<open>
  A channel of \<^verbatim>\<open>struct{}\<close> values is its capacity and the number of values buffered.
  A send needs room; without room the sender parks until a receiver comes, and in a
  sequential run of the sender none does.
\<close>

record chan =
  cap :: nat
  buffered :: nat

definition make_chan :: "nat \<Rightarrow> chan" where
  "make_chan n = \<lparr>cap = n, buffered = 0\<rparr>"

definition chan_send :: "chan \<Rightarrow> chan result" where
  "chan_send c = (if buffered c < cap c then Returned (c\<lparr>buffered := Suc (buffered c)\<rparr>)
                  else Blocked)"

definition WaiteIDE_guard :: "Facade \<Rightarrow> bool \<Rightarrow> bool" where
  "WaiteIDE_guard f force \<longleftrightarrow>
     t f \<noteq> None \<and> force \<and> \<not> isWaitingForIDE f \<and> \<not> isIDEReady f"

definition set_waiting :: "bool \<Rightarrow> world \<Rightarrow> world" where
  "set_waiting b w = w\<lparr>fcd := (fcd w)\<lparr>isWaitingForIDE := b\<rparr>\<rparr>"

text \<open>The process as the thread parks: the flag set, the mutex taken, \<^verbatim>\<open>Wait\<close> entered.\<close>

definition enter_wait :: "world \<Rightarrow> world" where
  "enter_wait w = emit EvCondWait (emit EvLock (set_waiting True w))"

definition WaiteIDE :: "env \<Rightarrow> chan \<Rightarrow> bool \<Rightarrow> world \<Rightarrow> chan result \<times> world" where
  "WaiteIDE e done force w =
     (if WaiteIDE_guard (fcd w) force then
        (case Wake e (enter_wait w) of
           None \<Rightarrow> (Blocked, enter_wait w)
         | Some w2 \<Rightarrow> (chan_send done, set_waiting False (emit EvUnlock w2)))
      else (chan_send done, w))"

section \<open>Connecting\<close>

text \<open>
  \<^verbatim>\<open>LuaError\<close> prefixes the message, fetches the script's global \<^verbatim>\<open>error\<close> and calls it
  with \<^verbatim>\<open>L.Call(1, 0)\<close>, which does not catch what the callee raises.
\<close>

definition LuaError :: "env \<Rightarrow> lstate \<Rightarrow> string \<Rightarrow> world \<Rightarrow> int result \<times> world" where
  "LuaError e L msg w =
     (let msg' = ''[Emmy]'' @ msg;
          w1 = emit (EvCallError msg') w
      in case CallGlobalError e msg' of
           Some raised \<Rightarrow> (LuaRaised raised, w1)
         | None \<Rightarrow> (Returned 0, w1))"

text \<open>\<^verbatim>\<open>&Transport{}\<close> and the assignment of its \<^verbatim>\<open>Handler\<close> field.\<close>

definition new_Transport :: "world \<Rightarrow> nat \<times> world" where
  "new_Transport w = (length (heap w), w\<lparr>heap := heap w @ [\<lparr>Handler = NoHandler\<rparr>]\<rparr>)"

definition set_Handler :: "nat \<Rightarrow> handler \<Rightarrow> world \<Rightarrow> world" where
  "set_Handler a h w = w\<lparr>heap := (heap w)[a := (heap w ! a)\<lparr>Handler := h\<rparr>]\<rparr>"

text \<open>
  \<^verbatim>\<open>TcpConnect\<close> returns the error of the failed open (\<open>Some m\<close>) or nil.  The write
  \<^verbatim>\<open>f.states[L] = struct{}{}\<close> comes first and panics on a nil map.
\<close>

definition TcpConnect ::
  "env \<Rightarrow> lstate \<Rightarrow> string \<Rightarrow> int \<Rightarrow> world \<Rightarrow> string option result \<times> world" where
  "TcpConnect e L host port w =
     (case states (fcd w) of
        None \<Rightarrow> (GoPanic NilMapAssignment, w)
      | Some S \<Rightarrow>
          (let w1 = w\<lparr>fcd := (fcd w)\<lparr>states := Some (insert L S)\<rparr>\<rparr>;
               (a, w2) = new_Transport w1;
               w3 = w2\<lparr>fcd := (fcd w2)\<lparr>t := Some a\<rparr>\<rparr>;
               w4 = set_Handler a FacadeHandleMsg w3;
               w5 = emit (EvTransportConnect a host port) w4
           in case TransportConnect e (trace w4) host port of
                Some err \<Rightarrow>
                  (case LuaError e L err w5 of
                     (Returned _, w6) \<Rightarrow> (Returned (Some err), w6)
                   | (LuaRaised m, w6) \<Rightarrow> (LuaRaised m, w6)
                   | (GoPanic p, w6) \<Rightarrow> (GoPanic p, w6)
                   | (Blocked, w6) \<Rightarrow> (Blocked, w6))
              | None \<Rightarrow>
                  (let waitDone = make_chan 1;
                       w6 = (if HasContext e L then emit EvGoWatcher w5 else w5)
                   in case WaiteIDE e waitDone True w6 of
                        (Returned _, w7) \<Rightarrow> (Returned None, w7)
                      | (LuaRaised m, w7) \<Rightarrow> (LuaRaised m, w7)
                      | (GoPanic p, w7) \<Rightarrow> (GoPanic p, w7)
                      | (Blocked, w7) \<Rightarrow> (Blocked, w7))))"

text \<open>
  \<^verbatim>\<open>Connect\<close> is the function the script calls.  Its result is the values it pushed and
  the count it returned.  \<^verbatim>\<open>CompareAndSwapInt32(&openConn, 0, 1)\<close> takes the guard when
  it is free.
\<close>

definition Connect ::
  "env \<Rightarrow> lstate \<Rightarrow> lvalue list \<Rightarrow> world \<Rightarrow> (lvalue list \<times> nat) result \<times> world" where
  "Connect e L args w =
     (case CheckString e args 1 of
        Inl m \<Rightarrow> (LuaRaised m, w)
      | Inr host \<Rightarrow>
     (case CheckNumber e args 2 of
        Inl m \<Rightarrow> (LuaRaised m, w)
      | Inr port \<Rightarrow>
     (if openConn w = 0 then
        (case TcpConnect e L host port (w\<lparr>openConn := 1\<rparr>) of
           (Returned (Some err), w1) \<Rightarrow> (Returned ([LFalse, LString err], 2), w1)
         | (Returned None, w1) \<Rightarrow> (Returned ([LTrue], 1), w1)
         | (LuaRaised m, w1) \<Rightarrow> (LuaRaised m, w1)
         | (GoPanic p, w1) \<Rightarrow> (GoPanic p, w1)
         | (Blocked, w1) \<Rightarrow> (Blocked, w1))
      else (Returned ([LTrue], 1), w))))"

section \<open>Closing\<close>

text \<open>
  \<^verbatim>\<open>Close\<close> returns the error of the transport's \<^verbatim>\<open>Close\<close>, or nil.  It does not reset
  the transport field.
\<close>

definition Close :: "env \<Rightarrow> world \<Rightarrow> string option result \<times> world" where
  "Close e w =
     (case t (fcd w) of
        Some a \<Rightarrow>
          (let w1 = w\<lparr>openConn := 0\<rparr>;
               w2 = w1\<lparr>fcd := (fcd w1)\<lparr>states := None\<rparr>\<rparr>
           in (Returned (TransportClose e (trace w) a), emit (EvTransportClose a) w2))
      | None \<Rightarrow> (Returned None, w))"

section \<open>Dispatching received messages\<close>

definition on_dbg :: "(Debugger \<Rightarrow> Debugger) \<Rightarrow> world \<Rightarrow> world" where
  "on_dbg g w = w\<lparr>fcd := (fcd w)\<lparr>dbg := g (dbg (fcd w))\<rparr>\<rparr>"

text \<open>
  \<^verbatim>\<open>OnInitReq\<close> attaches every registered instance.  The loop ranges over a Go map, in no
  fixed order; a key list of the map stands for the order of one run (a nil map has no
  keys).  Since attaching only inserts, the order does not show in the result.
\<close>

fun Attach_each :: "lstate list \<Rightarrow> Debugger \<Rightarrow> Debugger" where
  "Attach_each [] d = d"
| "Attach_each (L # Ls) d = Attach_each Ls (Attach L d)"

definition Attach_all :: "lstate set option \<Rightarrow> Debugger \<Rightarrow> Debugger" where
  "Attach_all S d = (case S of None \<Rightarrow> d | Some A \<Rightarrow> d\<lparr>attached := attached d \<union> A\<rparr>)"

definition OnInitReq :: "InitReq \<Rightarrow> world \<Rightarrow> world" where
  "OnInitReq req w =
     (let w1 = w\<lparr>fcd := (fcd w)\<lparr>helperCode := EmmyHelper req\<rparr>\<rparr>;
          w2 = on_dbg (Start (helperCode (fcd w1))) w1;
          w3 = on_dbg (Attach_all (states (fcd w2))) w2
      in on_dbg (\<lambda>d. d\<lparr>ExtNames := Ext req\<rparr>) w3)"

definition OnReadyReq :: "world \<Rightarrow> world" where
  "OnReadyReq w = emit EvBroadcast (w\<lparr>fcd := (fcd w)\<lparr>isIDEReady := True\<rparr>\<rparr>)"

definition to_BreakPoint :: "proto_BreakPoint \<Rightarrow> BreakPoint" where
  "to_BreakPoint bpProto =
     \<lparr>BreakPoint.File = proto_BreakPoint.File bpProto,
      BreakPoint.Condition = proto_BreakPoint.Condition bpProto,
      BreakPoint.Line = proto_BreakPoint.Line bpProto\<rparr>"

fun add_each :: "proto_BreakPoint list \<Rightarrow> Debugger \<Rightarrow> Debugger" where
  "add_each [] d = d"
| "add_each (bpProto # rest) d = add_each rest (AddBreakPoint (to_BreakPoint bpProto) d)"

definition OnAddBreakPointReq :: "AddBreakPointReq \<Rightarrow> world \<Rightarrow> world" where
  "OnAddBreakPointReq req w =
     (let w1 = (if Clear req then on_dbg RemoveAllBreakpoints w else w)
      in on_dbg (add_each (AddBreakPointReq.BreakPoints req)) w1)"

fun remove_each :: "proto_BreakPoint list \<Rightarrow> Debugger \<Rightarrow> Debugger" where
  "remove_each [] d = d"
| "remove_each (bp # rest) d =
     remove_each rest (RemoveBreakPoint (proto_BreakPoint.File bp) (proto_BreakPoint.Line bp) d)"

definition OnRemoveBreakPointReq :: "RemoveBreakPointReq \<Rightarrow> world \<Rightarrow> world" where
  "OnRemoveBreakPointReq req w = on_dbg (remove_each (RemoveBreakPointReq.BreakPoints req)) w"

definition OnActionReq :: "ActionReq \<Rightarrow> world \<Rightarrow> world" where
  "OnActionReq req w = on_dbg (DoAction (Action req)) w"

definition OnEvalReq :: "EvalReq \<Rightarrow> world \<Rightarrow> world" where
  "OnEvalReq req w =
     (let context = \<lparr>EvalContext.Expr = EvalReq.Expr req,
                     EvalContext.Seq = EvalReq.Seq req,
                     EvalContext.StackLevel = EvalReq.StackLevel req,
                     EvalContext.Depth = EvalReq.Depth req,
                     EvalContext.CacheId = EvalReq.CacheId req,
                     Success = False\<rparr>
      in on_dbg (Eval context) w)"

text \<open>
  The switch of \<^verbatim>\<open>HandleMsg\<close>, first match first, with no default branch.  A branch that
  reads the payload asserts its type (\<^verbatim>\<open>req.(*proto.InitReq)\<close>), which panics on any
  other payload.
\<close>

definition HandleMsg :: "msgids \<Rightarrow> int \<Rightarrow> payload \<Rightarrow> world \<Rightarrow> unit result \<times> world" where
  "HandleMsg ids cmd req w =
     (if cmd = MsgIdInitReq ids then
        (case req of PInitReq r \<Rightarrow> (Returned (), OnInitReq r w)
                   | _ \<Rightarrow> (GoPanic TypeAssertion, w))
      else if cmd = MsgIdReadyReq ids then (Returned (), OnReadyReq w)
      else if cmd = MsgIdAddBreakPointReq ids then
        (case req of PAddBreakPointReq r \<Rightarrow> (Returned (), OnAddBreakPointReq r w)
                   | _ \<Rightarrow> (GoPanic TypeAssertion, w))
      else if cmd = MsgIdRemoveBreakPointReq ids then
        (case req of PRemoveBreakPointReq r \<Rightarrow> (Returned (), OnRemoveBreakPointReq r w)
                   | _ \<Rightarrow> (GoPanic TypeAssertion, w))
      else if cmd = MsgIdActionReq ids then
        (case req of PActionReq r \<Rightarrow> (Returned (), OnActionReq r w)
                   | _ \<Rightarrow> (GoPanic TypeAssertion, w))
      else if cmd = MsgIdEvalReq ids then
        (case req of PEvalReq r \<Rightarrow> (Returned (), OnEvalReq r w)
                   | _ \<Rightarrow> (GoPanic TypeAssertion, w))
      else (Returned (), w))"

definition known_cmds :: "msgids \<Rightarrow> int set" where
  "known_cmds ids = {MsgIdInitReq ids, MsgIdReadyReq ids, MsgIdAddBreakPointReq ids,
     MsgIdRemoveBreakPointReq ids, MsgIdActionReq ids, MsgIdEvalReq ids}"

text \<open>
  Modelled from the spec: the receive path of the Transport is not among the source
  files.  By the spec it invokes the handler once per received message, in order; a
  panic of the handler ends it.
\<close>

fun HandleMsgs :: "msgids \<Rightarrow> (int \<times> payload) list \<Rightarrow> world \<Rightarrow> unit result \<times> world" where
  "HandleMsgs ids [] w = (Returned (), w)"
| "HandleMsgs ids ((cmd, req) # rest) w =
     (case HandleMsg ids cmd req w of
        (Returned _, w1) \<Rightarrow> HandleMsgs ids rest w1
      | (r, w1) \<Rightarrow> (r, w1))"

section \<open>Reporting a pause\<close>

text \<open>
  \<^verbatim>\<open>OnBreak\<close> turns the frames that \<^verbatim>\<open>GetStacks\<close> captured into the notification it
  sends.  \<^verbatim>\<open>GetStacks\<close> and the variables' \<^verbatim>\<open>toProto\<close> are the engine's, so the
  captured frames and \<^verbatim>\<open>toProto\<close> are arguments; the result is the command id and the
  payload that \<^verbatim>\<open>f.t.Send\<close> is called with.  Each loop appends to the slice it names.
\<close>

fun append_each :: "('v \<Rightarrow> 'p) \<Rightarrow> 'p list \<Rightarrow> 'v list \<Rightarrow> 'p list" where
  "append_each toProto acc [] = acc"
| "append_each toProto acc (variable # rest) = append_each toProto (acc @ [toProto variable]) rest"

definition OnBreak_frame :: "('v \<Rightarrow> 'p) \<Rightarrow> 'v Stack \<Rightarrow> 'p Stack" where
  "OnBreak_frame toProto stack =
     (let s0 = \<lparr>Level = Level stack, File = Stack.File stack,
                FunctionName = FunctionName stack, Line = Stack.Line stack,
                LocalVariables = [], UpvalueVariables = []\<rparr>;
          s1 = s0\<lparr>LocalVariables :=
                 append_each toProto (LocalVariables s0) (LocalVariables stack)\<rparr>;
          s2 = s1\<lparr>LocalVariables :=
                 append_each toProto (LocalVariables s1) (UpvalueVariables stack)\<rparr>
      in s2)"

fun OnBreak_frames :: "('v \<Rightarrow> 'p) \<Rightarrow> 'p Stack list \<Rightarrow> 'v Stack list \<Rightarrow> 'p Stack list" where
  "OnBreak_frames toProto acc [] = acc"
| "OnBreak_frames toProto acc (stack # rest) =
     OnBreak_frames toProto (acc @ [OnBreak_frame toProto stack]) rest"

definition OnBreak :: "msgids \<Rightarrow> ('v \<Rightarrow> 'p) \<Rightarrow> 'v Stack list \<Rightarrow> int \<times> 'p BreakNotify" where
  "OnBreak ids toProto stacks =
     (let notify = \<lparr>Cmd = MsgIdBreakNotify ids, Stacks = []\<rparr>;
          notify' = notify\<lparr>Stacks := OnBreak_frames toProto (Stacks notify) stacks\<rparr>
      in (MsgIdBreakNotify ids, notify'))"

section \<open>The rendezvous, thread by thread\<close>

text \<open>
  The wait of \<^verbatim>\<open>TcpConnect\<close> involves three threads: the interpreter thread inside
  \<^verbatim>\<open>WaiteIDE(waitDone, true)\<close>, the watcher \<^verbatim>\<open>stopWaitIDEIfContextCanceled\<close> (started
  only when the instance has a context), and the receive path, which may run
  \<^verbatim>\<open>OnReadyReq\<close>.  Each thread is cut at the points where another one can be observed;
  an action is one thread moving from one such point to the next, or the world moving
  (the context is cancelled, the ticker delivers a tick).  \<open>step\<close> is \<open>None\<close> when the
  action cannot happen in the configuration: the thread is elsewhere, or parked.
\<close>

datatype waiter_pc = AtGuard | AtWait | Parked | Woken | AtSend | Finished

datatype watcher_pc = NoWatcher | AwaitCancel | InLoop | Exited

record rendezvous =
  fac :: Facade
  waiter :: waiter_pc
  watcher :: watcher_pc
  cancelled :: bool
  tick :: bool
  waitDone :: chan
  sent :: nat
  broadcasts :: nat

datatype action =
    WaiterMoves
  | ReadyReqArrives
  | ContextCancelled
  | TickerFires
  | WatcherSeesCancel
  | WatcherTakesTick
  | WatcherTakesDone

text \<open>The state in which \<^verbatim>\<open>TcpConnect\<close> calls \<^verbatim>\<open>WaiteIDE\<close>, a fresh channel of capacity one in hand.\<close>

definition start_wait :: "Facade \<Rightarrow> bool \<Rightarrow> bool \<Rightarrow> rendezvous" where
  "start_wait f has_context already_cancelled =
     \<lparr>fac = f, waiter = AtGuard,
      watcher = (if has_context then AwaitCancel else NoWatcher),
      cancelled = already_cancelled, tick = False, waitDone = make_chan 1,
      sent = 0, broadcasts = 0\<rparr>"

text \<open>\<^verbatim>\<open>cond.Broadcast\<close> wakes the thread parked in \<^verbatim>\<open>cond.Wait\<close>, if there is one.\<close>

definition Broadcast :: "rendezvous \<Rightarrow> rendezvous" where
  "Broadcast c = (if waiter c = Parked then c\<lparr>waiter := Woken\<rparr> else c)"

text \<open>
  The interpreter thread in \<^verbatim>\<open>WaiteIDE(waitDone, true)\<close>: the test of the guard, with the
  flag set when it holds; \<^verbatim>\<open>Lock\<close> and the entry into \<^verbatim>\<open>Wait\<close>; the return from
  \<^verbatim>\<open>Wait\<close> after a broadcast, \<^verbatim>\<open>Unlock\<close> and the flag cleared; the send.
\<close>

definition waiter_moves :: "rendezvous \<Rightarrow> rendezvous option" where
  "waiter_moves c =
     (case waiter c of
        AtGuard \<Rightarrow>
          (if WaiteIDE_guard (fac c) True
           then Some (c\<lparr>fac := (fac c)\<lparr>isWaitingForIDE := True\<rparr>, waiter := AtWait\<rparr>)
           else Some (c\<lparr>waiter := AtSend\<rparr>))
      | AtWait \<Rightarrow> Some (c\<lparr>waiter := Parked\<rparr>)
      | Parked \<Rightarrow> None
      | Woken \<Rightarrow> Some (c\<lparr>fac := (fac c)\<lparr>isWaitingForIDE := False\<rparr>, waiter := AtSend\<rparr>)
      | AtSend \<Rightarrow>
          (case chan_send (waitDone c) of
             Returned ch \<Rightarrow> Some (c\<lparr>waitDone := ch, sent := Suc (sent c), waiter := Finished\<rparr>)
           | _ \<Rightarrow> None)
      | Finished \<Rightarrow> None)"

text \<open>
  The watcher: parked on \<^verbatim>\<open>ctx.Done()\<close> until the context is cancelled; then in the loop,
  where a pending tick lets it broadcast and a buffered value on \<^verbatim>\<open>waitDone\<close> lets it
  return.
\<close>

definition step :: "action \<Rightarrow> rendezvous \<Rightarrow> rendezvous option" where
  "step a c =
     (case a of
        WaiterMoves \<Rightarrow> waiter_moves c
      | ReadyReqArrives \<Rightarrow> Some (Broadcast (c\<lparr>fac := (fac c)\<lparr>isIDEReady := True\<rparr>\<rparr>))
      | ContextCancelled \<Rightarrow> Some (c\<lparr>cancelled := True\<rparr>)
      | TickerFires \<Rightarrow> (if watcher c = InLoop then Some (c\<lparr>tick := True\<rparr>) else None)
      | WatcherSeesCancel \<Rightarrow>
          (if watcher c = AwaitCancel \<and> cancelled c then Some (c\<lparr>watcher := InLoop\<rparr>)
           else None)
      | WatcherTakesTick \<Rightarrow>
          (if watcher c = InLoop \<and> tick c
           then Some (Broadcast (c\<lparr>tick := False, broadcasts := Suc (broadcasts c)\<rparr>))
           else None)
      | WatcherTakesDone \<Rightarrow>
          (if watcher c = InLoop \<and> 0 < buffered (waitDone c)
           then Some (c\<lparr>waitDone := (waitDone c)\<lparr>buffered := buffered (waitDone c) - 1\<rparr>,
                       watcher := Exited\<rparr>)
           else None))"

text \<open>What holds of the channel and of the two threads throughout a rendezvous.\<close>

definition rendezvous_inv :: "rendezvous \<Rightarrow> bool" where
  "rendezvous_inv c \<longleftrightarrow>
     cap (waitDone c) = 1
     \<and> sent c = (if waiter c = Finished then 1 else 0)
     \<and> buffered (waitDone c) = (if waiter c = Finished \<and> watcher c \<noteq> Exited then 1 else 0)
     \<and> (watcher c = Exited \<longrightarrow> waiter c = Finished)"

fun run :: "action list \<Rightarrow> rendezvous \<Rightarrow> rendezvous option" where
  "run [] c = Some c"
| "run (a # as) c = (case step a c of None \<Rightarrow> None | Some c' \<Rightarrow> run as c')"

section \<open>A concrete environment\<close>

text \<open>
  The checks of the standard interpreter on well-typed arguments, a peer that refuses
  every connection, the standard \<^verbatim>\<open>error\<close> function, and nobody to wake a waiter.
\<close>

definition std_CheckString :: "lvalue list \<Rightarrow> nat \<Rightarrow> string + string" where
  "std_CheckString args n =
     (if 0 < n \<and> n \<le> length args then
        (case args ! (n - 1) of LString s \<Rightarrow> Inr s | _ \<Rightarrow> Inl ''string expected'')
      else Inl ''string expected'')"

definition std_CheckNumber :: "lvalue list \<Rightarrow> nat \<Rightarrow> string + int" where
  "std_CheckNumber args n =
     (if 0 < n \<and> n \<le> length args then
        (case args ! (n - 1) of LNumber k \<Rightarrow> Inr k | _ \<Rightarrow> Inl ''number expected'')
      else Inl ''number expected'')"

definition refusing_env :: env where
  "refusing_env = \<lparr>CheckString = std_CheckString, CheckNumber = std_CheckNumber,
     TransportConnect = (\<lambda>before host port. Some ''connection refused''),
     TransportClose = (\<lambda>before a. None),
     CallGlobalError = (\<lambda>m. Some m),
     HasContext = (\<lambda>L. False),
     Wake = (\<lambda>w. None)\<rparr>"


definition connect_args :: "lvalue list" where
  "connect_args = [LString ''localhost'', LNumber 9966]"

definition sample_ids :: msgids where
  "sample_ids = \<lparr>MsgIdInitReq = 1, MsgIdReadyReq = 3, MsgIdAddBreakPointReq = 5,
     MsgIdRemoveBreakPointReq = 7, MsgIdActionReq = 9, MsgIdEvalReq = 11,
     MsgIdBreakNotify = 13, MsgIdEvalRsp = 12\<rparr>"

text \<open>The process after a call \<^verbatim>\<open>tcpConnect("localhost", 9966)\<close> that was refused.\<close>

definition refused :: world where
  "refused = snd (TcpConnect refusing_env 7 ''localhost'' 9966 (Preload\<lparr>openConn := 1\<rparr>))"

definition ide_ready :: "world \<Rightarrow> world" where
  "ide_ready w = w\<lparr>fcd := (fcd w)\<lparr>isIDEReady := True\<rparr>\<rparr>"

text \<open>A frame with one local and one upvalue, over variables that are their own wire form.\<close>

definition frame1 :: "string Stack" where
  "frame1 = \<lparr>Level = 0, File = ''x.lua'', FunctionName = ''f'', Line = 3,
     LocalVariables = [''i''], UpvalueVariables = [''up'']\<rparr>"

text \<open>The registry entry that a breakpoint of a request becomes.\<close>

definition bp_entry :: "proto_BreakPoint \<Rightarrow> bp_key \<times> BreakPoint" where
  "bp_entry p = ((proto_BreakPoint.File p, proto_BreakPoint.Line p), to_BreakPoint p)"

text \<open>The registry and the request of the clear-and-replace example.\<close>

definition bp_a :: BreakPoint where
  "bp_a = \<lparr>BreakPoint.File = ''a.lua'', Condition = [], Line = 10\<rparr>"

definition bp_b :: BreakPoint where
  "bp_b = \<lparr>BreakPoint.File = ''b.lua'', Condition = [], Line = 20\<rparr>"

definition bp_c :: proto_BreakPoint where
  "bp_c = \<lparr>proto_BreakPoint.File = ''c.lua'', Condition = [], Line = 5\<rparr>"

definition two_breakpoints :: world where
  "two_breakpoints = on_dbg (AddBreakPoint bp_b) (on_dbg (AddBreakPoint bp_a) Preload)"

definition clear_and_add_c :: AddBreakPointReq where
  "clear_and_add_c = \<lparr>Clear = True, BreakPoints = [bp_c]\<rparr>"

text \<open>
  Two rendezvous of an instance that carries a context: one resolved by the IDE with the
  context never cancelled, one resolved by the watcher's first broadcast after the
  context was cancelled.
\<close>

definition ready_run :: "action list" where
  "ready_run = [WaiterMoves, WaiterMoves, ReadyReqArrives, WaiterMoves, WaiterMoves]"

definition after_ready_run :: rendezvous where
  "after_ready_run =
     \<lparr>fac = (fcd refused)\<lparr>isIDEReady := True\<rparr>, waiter = Finished, watcher = AwaitCancel,
      cancelled = False, tick = False, waitDone = \<lparr>cap = 1, buffered = 1\<rparr>,
      sent = 1, broadcasts = 0\<rparr>"

definition cancelled_run :: "action list" where
  "cancelled_run = [WaiterMoves, WaiterMoves, ContextCancelled, WatcherSeesCancel,
     TickerFires, WatcherTakesTick, WaiterMoves, WaiterMoves]"

definition after_cancelled_run :: rendezvous where
  "after_cancelled_run =
     \<lparr>fac = fcd refused, waiter = Finished, watcher = InLoop,
      cancelled = True, tick = False, waitDone = \<lparr>cap = 1, buffered = 1\<rparr>,
      sent = 1, broadcasts = 1\<rparr>"

section \<open>Properties of connecting and closing\<close>

lemmas sample_defs = refusing_env_def connect_args_def std_CheckString_def
  std_CheckNumber_def Preload_def newFacade_def

lemma LuaError_eq:
  "LuaError e L msg w =
     ((case CallGlobalError e (''[Emmy]'' @ msg) of
         Some m \<Rightarrow> LuaRaised m | None \<Rightarrow> Returned 0),
      emit (EvCallError (''[Emmy]'' @ msg)) w)"
  by (simp add: LuaError_def Let_def split: option.splits)

lemma TcpConnect_fails:
  assumes "states (fcd w) = Some S" and "TransportConnect e (trace w) host port = Some err"
  shows "TcpConnect e L host port w =
     ((case CallGlobalError e (''[Emmy]'' @ err) of
         Some m \<Rightarrow> LuaRaised m | None \<Rightarrow> Returned (Some err)),
      w\<lparr>fcd := (fcd w)\<lparr>states := Some (insert L S), t := Some (length (heap w))\<rparr>,
        heap := heap w @ [\<lparr>Handler = FacadeHandleMsg\<rparr>],
        trace := trace w @ [EvTransportConnect (length (heap w)) host port,
                            EvCallError (''[Emmy]'' @ err)]\<rparr>)"
  using assms
  by (simp add: TcpConnect_def LuaError_eq new_Transport_def set_Handler_def emit_def
      Let_def split: option.splits)

lemma refused_eq:
  "refused = \<lparr>openConn = 1,
     fcd = newFacade\<lparr>states := Some {7}, t := Some 0\<rparr>,
     heap = [\<lparr>Handler = FacadeHandleMsg\<rparr>],
     trace = [EvTransportConnect 0 ''localhost'' 9966,
              EvCallError ''[Emmy]connection refused'']\<rparr>"
  by (simp add: refused_def TcpConnect_fails [where S = "{}"] sample_defs)

text \<open>
  C1.  Whenever \<^verbatim>\<open>Connect\<close> is called with well-typed arguments while \<^verbatim>\<open>openConn\<close> is
  not zero, it pushes \<^verbatim>\<open>true\<close>, returns one value, and leaves the whole process as it
  was: the guard, the facade of the running session, the transports, and the trace, so
  that no transport was opened and no wait was entered.
\<close>

theorem Connect_guard_held:
  assumes "CheckString e args 1 = Inr host"
    and "CheckNumber e args 2 = Inr port"
    and "openConn w \<noteq> 0"
  shows "Connect e L args w = (Returned ([LTrue], 1), w)"
  using assms by (simp add: Connect_def)

theorem Connect_guard_held_witness:
  "openConn refused \<noteq> 0
   \<and> Connect refusing_env 8 connect_args refused = (Returned ([LTrue], 1), refused)"
proof -
  have g: "openConn refused \<noteq> 0"
    by (simp add: refused_eq)
  have "Connect refusing_env 8 connect_args refused = (Returned ([LTrue], 1), refused)"
    by (rule Connect_guard_held [where host = "''localhost''" and port = 9966])
       (simp_all add: g sample_defs)
  with g show ?thesis by simp
qed

text \<open>
  C2, as the code has it.  When \<^verbatim>\<open>Connect\<close> takes the guard and the open of the
  transport is attempted and fails with message \<open>err\<close>, the error goes to the script's
  global \<^verbatim>\<open>error\<close> function as \<^verbatim>\<open>[Emmy]\<close> followed by \<open>err\<close>.  If that call raises, as
  the standard function does, \<^verbatim>\<open>Connect\<close> ends with the raised error and pushes nothing;
  if it returns, \<^verbatim>\<open>Connect\<close> pushes \<^verbatim>\<open>false\<close> and \<open>err\<close> and returns two values.  Either
  way the transport was opened once and not again, and \<^verbatim>\<open>openConn\<close> stays 1.
\<close>

theorem Connect_open_fails:
  assumes "CheckString e args 1 = Inr host"
    and "CheckNumber e args 2 = Inr port"
    and "openConn w = 0"
    and "states (fcd w) = Some S"
    and "TransportConnect e (trace w) host port = Some err"
  shows "fst (Connect e L args w) =
           (case CallGlobalError e (''[Emmy]'' @ err) of
              Some m \<Rightarrow> LuaRaised m
            | None \<Rightarrow> Returned ([LFalse, LString err], 2))
       \<and> openConn (snd (Connect e L args w)) = 1
       \<and> trace (snd (Connect e L args w)) =
           trace w @ [EvTransportConnect (length (heap w)) host port,
                      EvCallError (''[Emmy]'' @ err)]"
  using assms
  by (simp add: Connect_def TcpConnect_fails [where S = S] split: option.splits)

theorem Connect_open_fails_witness:
  "openConn Preload = 0
   \<and> TransportConnect refusing_env [] ''localhost'' 9966 = Some ''connection refused''
   \<and> fst (Connect refusing_env 7 connect_args Preload) = LuaRaised ''[Emmy]connection refused''
   \<and> openConn (snd (Connect refusing_env 7 connect_args Preload)) = 1
   \<and> trace (snd (Connect refusing_env 7 connect_args Preload)) =
       [EvTransportConnect 0 ''localhost'' 9966, EvCallError ''[Emmy]connection refused'']"
  using Connect_open_fails [of refusing_env connect_args "''localhost''" 9966 Preload "{}"
      "''connection refused''" 7]
  by (simp add: sample_defs)

text \<open>
  With the standard \<^verbatim>\<open>error\<close> function in place the guard is taken, the open is
  refused, and \<^verbatim>\<open>Connect\<close> does not return \<^verbatim>\<open>false\<close> and the message: C2 in the spec's
  wording does not hold there.
\<close>

theorem Connect_open_fails_counterexample:
  "openConn Preload = 0
   \<and> TransportConnect refusing_env [] ''localhost'' 9966 = Some ''connection refused''
   \<and> fst (Connect refusing_env 7 connect_args Preload)
       \<noteq> Returned ([LFalse, LString ''connection refused''], 2)"
  by (simp add: sample_defs Connect_def TcpConnect_def LuaError_def new_Transport_def
      set_Handler_def emit_def Let_def)

text \<open>
  C10.  When the open is attempted and fails, \<^verbatim>\<open>TcpConnect\<close> has already put the calling
  instance into the attached set and a newly allocated transport, with the facade's
  handler installed, into the transport field; the open was called on that transport.
  The guard is not touched.  A \<^verbatim>\<open>Close\<close> that follows finds the transport field set: it
  returns what the transport's \<^verbatim>\<open>Close\<close> returns, sets \<^verbatim>\<open>openConn\<close> to 0, sets the
  attached set to nil, and has closed that transport.
\<close>

theorem TcpConnect_failure_leaves_transport:
  assumes "states (fcd w) = Some S" and "TransportConnect e (trace w) host port = Some err"
  shows "(let a = length (heap w); w' = snd (TcpConnect e L host port w) in
            states (fcd w') = Some (insert L S)
          \<and> t (fcd w') = Some a
          \<and> heap w' = heap w @ [\<lparr>Handler = FacadeHandleMsg\<rparr>]
          \<and> trace w' = trace w @ [EvTransportConnect a host port,
                                   EvCallError (''[Emmy]'' @ err)]
          \<and> openConn w' = openConn w
          \<and> fst (TcpConnect e L host port w) =
               (case CallGlobalError e (''[Emmy]'' @ err) of
                  Some m \<Rightarrow> LuaRaised m | None \<Rightarrow> Returned (Some err))
          \<and> fst (Close e w') = Returned (TransportClose e (trace w') a)
          \<and> openConn (snd (Close e w')) = 0
          \<and> states (fcd (snd (Close e w'))) = None
          \<and> trace (snd (Close e w')) = trace w' @ [EvTransportClose a])"
  using assms
  by (simp add: TcpConnect_fails [where S = S] Close_def emit_def Let_def
      split: option.splits)

theorem TcpConnect_failure_leaves_transport_witness:
  "states (fcd (Preload\<lparr>openConn := 1\<rparr>)) = Some {}
   \<and> TransportConnect refusing_env [] ''localhost'' 9966 = Some ''connection refused''
   \<and> states (fcd refused) = Some {7} \<and> t (fcd refused) = Some 0
   \<and> heap refused = [\<lparr>Handler = FacadeHandleMsg\<rparr>]
   \<and> openConn refused = 1
   \<and> fst (Close refusing_env refused) = Returned None
   \<and> openConn (snd (Close refusing_env refused)) = 0
   \<and> states (fcd (snd (Close refusing_env refused))) = None"
  using TcpConnect_failure_leaves_transport [of "Preload\<lparr>openConn := 1\<rparr>" "{}" refusing_env
      "''localhost''" 9966 "''connection refused''" 7]
  by (simp add: Let_def refused_def [symmetric]) (simp add: sample_defs)




section \<open>Properties of the rendezvous\<close>




lemma rendezvous_inv_start: "rendezvous_inv (start_wait f has_context already_cancelled)"
  by (simp add: rendezvous_inv_def start_wait_def make_chan_def)

lemma rendezvous_inv_waiter:
  assumes "rendezvous_inv c" and "waiter_moves c = Some c'"
  shows "rendezvous_inv c'"
  using assms
  by (cases "waiter c")
     (auto simp: rendezvous_inv_def waiter_moves_def chan_send_def split: if_splits)

lemma rendezvous_inv_Broadcast: "rendezvous_inv c \<Longrightarrow> rendezvous_inv (Broadcast c)"
  by (auto simp: rendezvous_inv_def Broadcast_def)

lemma rendezvous_inv_step:
  assumes "rendezvous_inv c" and "step a c = Some c'"
  shows "rendezvous_inv c'"
proof (cases a)
  case WaiterMoves
  with assms show ?thesis by (simp add: step_def rendezvous_inv_waiter)
next
  case ReadyReqArrives
  have "rendezvous_inv (c\<lparr>fac := (fac c)\<lparr>isIDEReady := True\<rparr>\<rparr>)"
    using assms(1) by (simp add: rendezvous_inv_def)
  with assms(2) ReadyReqArrives show ?thesis
    by (auto simp: step_def dest: rendezvous_inv_Broadcast)
next
  case ContextCancelled
  with assms show ?thesis by (auto simp: step_def rendezvous_inv_def)
next
  case TickerFires
  with assms show ?thesis by (auto simp: step_def rendezvous_inv_def split: if_splits)
next
  case WatcherSeesCancel
  with assms show ?thesis by (auto simp: step_def rendezvous_inv_def split: if_splits)
next
  case WatcherTakesTick
  have "rendezvous_inv (c\<lparr>tick := False, broadcasts := Suc (broadcasts c)\<rparr>)"
    using assms(1) by (simp add: rendezvous_inv_def)
  with assms(2) WatcherTakesTick show ?thesis
    by (auto simp: step_def split: if_splits dest: rendezvous_inv_Broadcast)
next
  case WatcherTakesDone
  with assms show ?thesis by (auto simp: step_def rendezvous_inv_def split: if_splits)
qed

lemma rendezvous_inv_run:
  "rendezvous_inv c \<Longrightarrow> run acts c = Some c' \<Longrightarrow> rendezvous_inv c'"
proof (induction acts arbitrary: c)
  case Nil
  then show ?case by simp
next
  case (Cons a acts)
  then show ?case
    by (auto split: option.splits dest: rendezvous_inv_step)
qed

lemma Exited_step:
  assumes "watcher c = Exited" and "step a c = Some c'"
  shows "watcher c' = Exited \<and> broadcasts c' = broadcasts c"
  using assms
  by (cases a; cases "waiter c")
     (auto simp: step_def waiter_moves_def Broadcast_def split: if_splits result.splits)

lemma Exited_run:
  "watcher c = Exited \<Longrightarrow> run acts c = Some c' \<Longrightarrow>
     watcher c' = Exited \<and> broadcasts c' = broadcasts c"
proof (induction acts arbitrary: c)
  case Nil
  then show ?case by simp
next
  case (Cons a acts)
  from Cons.prems obtain c1 where s: "step a c = Some c1" and r: "run acts c1 = Some c'"
    by (auto split: option.splits)
  from Exited_step [OF Cons.prems(1) s] Cons.IH [OF _ r] show ?case by simp
qed

lemma WaiteIDE_sends_once:
  "fst (WaiteIDE e done force w) = Returned ch \<Longrightarrow>
     ch = done\<lparr>buffered := Suc (buffered done)\<rparr>"
  by (auto simp: WaiteIDE_def chan_send_def split: if_splits option.splits)

lemma WaiteIDE_returns:
  assumes "buffered done < cap done"
    and "WaiteIDE_guard (fcd w) force \<longrightarrow> Wake e (enter_wait w) \<noteq> None"
  shows "fst (WaiteIDE e done force w) = Returned (done\<lparr>buffered := Suc (buffered done)\<rparr>)"
  using assms by (auto simp: WaiteIDE_def chan_send_def split: option.splits)

lemma start_wait_refused:
  "start_wait (fcd refused) True False =
     \<lparr>fac = newFacade\<lparr>states := Some {7}, t := Some 0\<rparr>, waiter = AtGuard,
      watcher = AwaitCancel, cancelled = False, tick = False,
      waitDone = \<lparr>cap = 1, buffered = 0\<rparr>, sent = 0, broadcasts = 0\<rparr>"
  by (simp add: start_wait_def refused_eq make_chan_def)

lemma ready_run_eq: "run ready_run (start_wait (fcd refused) True False) = Some after_ready_run"
  unfolding start_wait_refused ready_run_def after_ready_run_def
  by (simp add: refused_eq newFacade_def step_def waiter_moves_def WaiteIDE_guard_def
      Broadcast_def chan_send_def)

lemma cancelled_run_eq:
  "run cancelled_run (start_wait (fcd refused) True False) = Some after_cancelled_run"
  unfolding start_wait_refused cancelled_run_def after_cancelled_run_def
  by (simp add: refused_eq newFacade_def step_def waiter_moves_def WaiteIDE_guard_def
      Broadcast_def chan_send_def)

text \<open>
  C9, as the code has it.  A call of \<^verbatim>\<open>WaiteIDE\<close> that returns has sent exactly one value
  on its done channel, on the path that waits and on the path that does not; and it
  does return when the channel has room and, on the path that waits, a broadcast comes.
  In the rendezvous of \<^verbatim>\<open>TcpConnect\<close>, whatever the threads have done so far: one value
  has been sent once the interpreter thread is through and none before; a watcher whose
  context is not cancelled can do nothing, neither receive nor broadcast nor end; a
  watcher whose context is cancelled enters its loop; in the loop, once the interpreter
  thread is through, the receive from the done channel is ready and ends the watcher;
  and a watcher that has ended stays so and broadcasts no more.
\<close>

theorem done_signal_reaches_watcher:
  "(\<forall>ch. fst (WaiteIDE e done force w) = Returned ch \<longrightarrow>
          ch = done\<lparr>buffered := Suc (buffered done)\<rparr>)
   \<and> (buffered done < cap done
        \<and> (WaiteIDE_guard (fcd w) force \<longrightarrow> Wake e (enter_wait w) \<noteq> None) \<longrightarrow>
      fst (WaiteIDE e done force w) = Returned (done\<lparr>buffered := Suc (buffered done)\<rparr>))
   \<and> (run acts (start_wait f has_context already_cancelled) = Some c \<longrightarrow>
        sent c = (if waiter c = Finished then 1 else 0)
      \<and> (watcher c = AwaitCancel \<and> \<not> cancelled c \<longrightarrow>
           step WatcherSeesCancel c = None \<and> step WatcherTakesTick c = None
           \<and> step WatcherTakesDone c = None)
      \<and> (watcher c = AwaitCancel \<and> cancelled c \<longrightarrow>
           step WatcherSeesCancel c = Some (c\<lparr>watcher := InLoop\<rparr>))
      \<and> (waiter c = Finished \<and> watcher c = InLoop \<longrightarrow>
           (\<exists>c'. step WatcherTakesDone c = Some c' \<and> watcher c' = Exited))
      \<and> (watcher c = Exited \<longrightarrow>
           (\<forall>more c'. run more c = Some c' \<longrightarrow>
              watcher c' = Exited \<and> broadcasts c' = broadcasts c)))"
proof (intro conjI allI impI)
  fix ch assume "fst (WaiteIDE e done force w) = Returned ch"
  then show "ch = done\<lparr>buffered := Suc (buffered done)\<rparr>" by (rule WaiteIDE_sends_once)
next
  assume "buffered done < cap done
        \<and> (WaiteIDE_guard (fcd w) force \<longrightarrow> Wake e (enter_wait w) \<noteq> None)"
  then show "fst (WaiteIDE e done force w) = Returned (done\<lparr>buffered := Suc (buffered done)\<rparr>)"
    by (simp add: WaiteIDE_returns)
next
  assume r: "run acts (start_wait f has_context already_cancelled) = Some c"
  have inv: "rendezvous_inv c"
    by (rule rendezvous_inv_run [OF rendezvous_inv_start r])
  show "sent c = (if waiter c = Finished then 1 else 0)"
    using inv by (simp add: rendezvous_inv_def)
  { assume "watcher c = AwaitCancel \<and> \<not> cancelled c"
    then show "step WatcherSeesCancel c = None" "step WatcherTakesTick c = None"
      "step WatcherTakesDone c = None"
      by (simp_all add: step_def) }
  { assume "watcher c = AwaitCancel \<and> cancelled c"
    then show "step WatcherSeesCancel c = Some (c\<lparr>watcher := InLoop\<rparr>)"
      by (simp add: step_def) }
  { assume "waiter c = Finished \<and> watcher c = InLoop"
    with inv show "\<exists>c'. step WatcherTakesDone c = Some c' \<and> watcher c' = Exited"
      by (simp add: step_def rendezvous_inv_def) }
  { fix more c' assume "watcher c = Exited" and "run more c = Some c'"
    then show "watcher c' = Exited" "broadcasts c' = broadcasts c"
      using Exited_run by blast+ }
qed

theorem done_signal_reaches_watcher_witness:
  "fst (WaiteIDE refusing_env (make_chan 1) True (ide_ready refused))
     = Returned \<lparr>cap = 1, buffered = 1\<rparr>
   \<and> run cancelled_run (start_wait (fcd refused) True False) = Some after_cancelled_run
   \<and> waiter after_cancelled_run = Finished \<and> watcher after_cancelled_run = InLoop
   \<and> sent after_cancelled_run = 1
   \<and> (\<exists>c'. step WatcherTakesDone after_cancelled_run = Some c' \<and> watcher c' = Exited)"
proof -
  note th = done_signal_reaches_watcher [where e = refusing_env and ?done = "make_chan 1"
      and force = True and w = "ide_ready refused" and acts = cancelled_run
      and f = "fcd refused" and has_context = True and already_cancelled = False
      and c = after_cancelled_run]
  have room: "buffered (make_chan 1) < cap (make_chan 1)
      \<and> (WaiteIDE_guard (fcd (ide_ready refused)) True \<longrightarrow>
           Wake refusing_env (enter_wait (ide_ready refused)) \<noteq> None)"
    by (simp add: make_chan_def ide_ready_def WaiteIDE_guard_def)
  have "fst (WaiteIDE refusing_env (make_chan 1) True (ide_ready refused))
          = Returned ((make_chan 1)\<lparr>buffered := Suc (buffered (make_chan 1))\<rparr>)"
    using th [THEN conjunct2, THEN conjunct1] room by (rule mp)
  then have a: "fst (WaiteIDE refusing_env (make_chan 1) True (ide_ready refused))
          = Returned \<lparr>cap = 1, buffered = 1\<rparr>"
    by (simp add: make_chan_def)
  have pcs: "waiter after_cancelled_run = Finished \<and> watcher after_cancelled_run = InLoop"
    by (simp add: after_cancelled_run_def)
  note run_part = th [THEN conjunct2, THEN conjunct2, THEN mp, OF cancelled_run_eq]
  from run_part pcs have b: "sent after_cancelled_run = 1"
    by simp
  from run_part pcs
  have c: "\<exists>c'. step WatcherTakesDone after_cancelled_run = Some c' \<and> watcher c' = Exited"
    by blast
  from a cancelled_run_eq pcs b c show ?thesis by blast
qed

text \<open>
  Where the context is never cancelled, the IDE's readiness resolves the wait and the
  interpreter thread sends its value, but the watcher is still parked on the context,
  the value stays in the channel, and no move of the watcher is possible: C9 in the
  spec's wording does not hold there.
\<close>

theorem done_signal_reaches_watcher_counterexample:
  "run ready_run (start_wait (fcd refused) True False) = Some after_ready_run
   \<and> waiter after_ready_run = Finished
   \<and> watcher after_ready_run = AwaitCancel
   \<and> buffered (waitDone after_ready_run) = 1
   \<and> step WatcherSeesCancel after_ready_run = None
   \<and> step WatcherTakesTick after_ready_run = None
   \<and> step WatcherTakesDone after_ready_run = None"
  by (simp add: ready_run_eq) (simp add: after_ready_run_def step_def)

section \<open>Properties of the dispatcher\<close>

lemma Attach_each_all: "set Ls = A \<Longrightarrow> Attach_each Ls d = Attach_all (Some A) d"
proof (induction Ls arbitrary: d A)
  case Nil
  then show ?case by (simp add: Attach_all_def)
next
  case (Cons L Ls)
  have "Attach_each Ls (Attach L d) = Attach_all (Some (set Ls)) (Attach L d)"
    by (rule Cons.IH) simp
  with Cons.prems show ?case by (auto simp: Attach_all_def Attach_def)
qed

lemma add_each_breakpoints:
  "breakpoints (add_each bps d) = breakpoints d ++ map_of (rev (map bp_entry bps))"
proof (induction bps arbitrary: d)
  case Nil
  then show ?case by simp
next
  case (Cons p bps)
  have "breakpoints (add_each (p # bps) d)
          = breakpoints (AddBreakPoint (to_BreakPoint p) d) ++ map_of (rev (map bp_entry bps))"
    by (simp add: Cons.IH)
  also have "breakpoints (AddBreakPoint (to_BreakPoint p) d)
          = breakpoints d ++ map_of [bp_entry p]"
    by (simp add: AddBreakPoint_def bp_entry_def to_BreakPoint_def)
  also have "(breakpoints d ++ map_of [bp_entry p]) ++ map_of (rev (map bp_entry bps))
          = breakpoints d ++ map_of (rev (map bp_entry (p # bps)))"
    by (simp only: map_add_assoc list.map rev.simps map_of_append)
  finally show ?case .
qed

text \<open>
  C4.  Handling an \<^verbatim>\<open>AddBreakPointReq\<close> whose clear flag is set leaves a registry that
  holds exactly the breakpoints of the request: its keys are the (File, Line) pairs of
  the list, and each key maps to the last breakpoint of the list that has it.  What was
  registered before is gone.
\<close>

theorem OnAddBreakPointReq_clear:
  assumes "Clear req"
  shows "breakpoints (dbg (fcd (OnAddBreakPointReq req w)))
           = map_of (rev (map bp_entry (AddBreakPointReq.BreakPoints req)))
       \<and> dom (breakpoints (dbg (fcd (OnAddBreakPointReq req w))))
           = (\<lambda>p. (proto_BreakPoint.File p, proto_BreakPoint.Line p))
               ` set (AddBreakPointReq.BreakPoints req)"
proof -
  have eq: "breakpoints (dbg (fcd (OnAddBreakPointReq req w)))
           = map_of (rev (map bp_entry (AddBreakPointReq.BreakPoints req)))"
    using assms
    by (simp add: OnAddBreakPointReq_def on_dbg_def RemoveAllBreakpoints_def
        add_each_breakpoints)
  have "fst ` set (rev (map bp_entry (AddBreakPointReq.BreakPoints req)))
          = (\<lambda>p. (proto_BreakPoint.File p, proto_BreakPoint.Line p))
               ` set (AddBreakPointReq.BreakPoints req)"
    by (simp add: image_image bp_entry_def)
  with eq show ?thesis by (simp add: dom_map_of_conv_image_fst)
qed

theorem OnAddBreakPointReq_clear_witness:
  "dom (breakpoints (dbg (fcd two_breakpoints))) = {(''a.lua'', 10), (''b.lua'', 20)}
   \<and> Clear clear_and_add_c
   \<and> dom (breakpoints (dbg (fcd (OnAddBreakPointReq clear_and_add_c two_breakpoints))))
       = {(''c.lua'', 5)}
   \<and> breakpoints (dbg (fcd (OnAddBreakPointReq clear_and_add_c two_breakpoints)))
       = [(''c.lua'', 5) \<mapsto> to_BreakPoint bp_c]"
proof -
  have c: "Clear clear_and_add_c"
    by (simp add: clear_and_add_c_def)
  have before: "dom (breakpoints (dbg (fcd two_breakpoints))) = {(''a.lua'', 10), (''b.lua'', 20)}"
    by (auto simp: two_breakpoints_def on_dbg_def AddBreakPoint_def bp_a_def bp_b_def
        Preload_def newFacade_def newDebugger_def)
  have entries: "map_of (rev (map bp_entry (AddBreakPointReq.BreakPoints clear_and_add_c)))
                   = [(''c.lua'', 5) \<mapsto> to_BreakPoint bp_c]"
    by (simp add: clear_and_add_c_def bp_entry_def bp_c_def)
  have keys: "(\<lambda>p. (proto_BreakPoint.File p, proto_BreakPoint.Line p))
                ` set (AddBreakPointReq.BreakPoints clear_and_add_c) = {(''c.lua'', 5)}"
    by (simp add: clear_and_add_c_def bp_c_def)
  from OnAddBreakPointReq_clear [OF c, of two_breakpoints] before c
  show ?thesis by (simp add: entries keys)
qed

lemma HandleMsg_unknown:
  "cmd \<notin> known_cmds ids \<Longrightarrow> HandleMsg ids cmd req w = (Returned (), w)"
  by (simp add: HandleMsg_def known_cmds_def)

lemma HandleMsgs_append:
  "HandleMsgs ids (ms1 @ ms2) w =
     (case HandleMsgs ids ms1 w of
        (Returned _, w1) \<Rightarrow> HandleMsgs ids ms2 w1
      | (r, w1) \<Rightarrow> (r, w1))"
proof (induction ms1 arbitrary: w)
  case Nil
  then show ?case by simp
next
  case (Cons m ms1)
  obtain cmd req where m: "m = (cmd, req)" by (cases m)
  obtain r w1 where h: "HandleMsg ids cmd req w = (r, w1)" by (cases "HandleMsg ids cmd req w")
  show ?case by (cases r) (simp_all add: m h Cons.IH)
qed

text \<open>
  C8, as the code has it.  A message whose command id is none of the six request ids is
  dropped: \<^verbatim>\<open>HandleMsg\<close> returns without a panic and leaves the process as it was, the
  trace included, so nothing is logged either.  The messages around it are dispatched as
  if it had not been there.
\<close>

theorem HandleMsg_unknown_dropped:
  assumes "cmd \<notin> known_cmds ids"
  shows "HandleMsg ids cmd req w = (Returned (), w)
       \<and> HandleMsgs ids (before @ (cmd, req) # after) w = HandleMsgs ids (before @ after) w"
proof -
  have "HandleMsgs ids ((cmd, req) # after) w' = HandleMsgs ids after w'" for w'
    by (simp add: HandleMsg_unknown [OF assms])
  then have "HandleMsgs ids (before @ (cmd, req) # after) w = HandleMsgs ids (before @ after) w"
    by (simp add: HandleMsgs_append [where ?ms2.0 = "(cmd, req) # after"]
        HandleMsgs_append [where ?ms2.0 = after] del: HandleMsgs.simps
        split: prod.split result.split)
  with HandleMsg_unknown [OF assms] show ?thesis by simp
qed

theorem HandleMsg_unknown_dropped_witness:
  "99 \<notin> known_cmds sample_ids
   \<and> HandleMsg sample_ids 99 POther Preload = (Returned (), Preload)
   \<and> HandleMsgs sample_ids [(3, PReadyReq), (99, POther), (9, PActionReq \<lparr>Action = 0\<rparr>)] Preload
       = HandleMsgs sample_ids [(3, PReadyReq), (9, PActionReq \<lparr>Action = 0\<rparr>)] Preload"
proof -
  have u: "99 \<notin> known_cmds sample_ids"
    by (simp add: known_cmds_def sample_ids_def)
  from HandleMsg_unknown_dropped [OF u, of POther Preload "[(3, PReadyReq)]"
      "[(9, PActionReq \<lparr>Action = 0\<rparr>)]"] u
  show ?thesis by simp
qed

text \<open>
  Dispatching an unknown id from the initial process leaves the trace empty, so no line
  was logged: C8 in the spec's wording does not hold on the log.
\<close>

theorem HandleMsg_unknown_dropped_counterexample:
  "99 \<notin> known_cmds sample_ids
   \<and> trace (snd (HandleMsg sample_ids 99 POther Preload)) = []"
  by (simp add: known_cmds_def sample_ids_def HandleMsg_def Preload_def)

section \<open>Properties of the pause report\<close>

lemma append_each_map: "append_each f acc vs = acc @ map f vs"
  by (induction vs arbitrary: acc) simp_all

lemma OnBreak_frames_map: "OnBreak_frames f acc ss = acc @ map (OnBreak_frame f) ss"
  by (induction ss arbitrary: acc) simp_all

lemma OnBreak_frame_fields:
  "LocalVariables (OnBreak_frame f s) = map f (LocalVariables s) @ map f (UpvalueVariables s)"
  "UpvalueVariables (OnBreak_frame f s) = []"
  by (simp_all add: OnBreak_frame_def append_each_map Let_def)

text \<open>
  C3.  For a captured frame with the local \<open>i\<close> and the upvalue \<open>up\<close>, the notification
  that \<^verbatim>\<open>OnBreak\<close> sends carries both in the frame's \<^verbatim>\<open>LocalVariables\<close> and nothing in its
  \<^verbatim>\<open>UpvalueVariables\<close>: the second loop appends to the slice of the first.
\<close>

theorem OnBreak_upvalues_misfiled:
  "snd (OnBreak sample_ids (\<lambda>v. v) [frame1]) =
     \<lparr>Cmd = 13, Stacks = [\<lparr>Level = 0, File = ''x.lua'', FunctionName = ''f'', Line = 3,
        LocalVariables = [''i'', ''up''], UpvalueVariables = []\<rparr>]\<rparr>
   \<and> UpvalueVariables frame1 = [''up'']"
  by (simp add: OnBreak_def OnBreak_frame_def frame1_def sample_ids_def Let_def)

end
